theory Spec2Isabelle
  imports Complex_Main
begin

section \<open>The compat component of Icinga 2: command pipe and status files\<close>

text \<open>
  A shallow embedding of \<^verbatim>\<open>components/compat/compatcomponent.cpp\<close>: the command
  reader \<^verbatim>\<open>CommandPipeThread\<close>, the decoder \<^verbatim>\<open>ProcessCommand\<close>, and the writers of
  \<^verbatim>\<open>status.dat\<close> and \<^verbatim>\<open>objects.cache\<close>. A \<^verbatim>\<open>double\<close> is modelled as a real
  number: the code only compares one with 0, subtracts two of them and divides one by 60.
\<close>

subsection \<open>The String class\<close>

text \<open>
  The class \<^verbatim>\<open>String\<close> lives in \<^verbatim>\<open>base/\<close>, which is not part of the sources at
  hand. It wraps \<^verbatim>\<open>std::string\<close>, and its members are modelled after the spec's words
  and the standard-library calls they stand for. \<^verbatim>\<open>String::NPos\<close> is \<open>None\<close>.
\<close>

datatype exception = std_out_of_range | PosixException string

text \<open>
  Modelled from the spec: \<^verbatim>\<open>String::FindFirstOf\<close> (class String, not in the sources):
  "the first \<^verbatim>\<open>]\<close> ... terminates the timestamp field; absence ... fails". The index
  of the first character that is one of \<open>chars\<close>, \<open>None\<close> for \<^verbatim>\<open>NPos\<close>.
\<close>

fun FindFirstOf :: "string \<Rightarrow> string \<Rightarrow> nat option" where
  "FindFirstOf [] chars = None"
| "FindFirstOf (c # cs) chars =
     (if c \<in> set chars then Some 0 else map_option Suc (FindFirstOf cs chars))"

text \<open>
  Modelled from the spec: \<^verbatim>\<open>String::SubStr\<close> (class String, not in the sources):
  "the substring between \<^verbatim>\<open>[\<close> and \<^verbatim>\<open>]\<close>", "the remainder, starting two characters
  after the \<^verbatim>\<open>]\<close>". As \<^verbatim>\<open>std::string::substr\<close>, which it forwards to: at most
  \<open>len\<close> characters from position \<open>first\<close>, all of them for \<^verbatim>\<open>NPos\<close>; a start
  position beyond the length raises \<^verbatim>\<open>std::out_of_range\<close>, a start position equal
  to the length gives the empty string.
\<close>

definition SubStr :: "string \<Rightarrow> nat \<Rightarrow> nat option \<Rightarrow> exception + string" where
  "SubStr s first len =
     (if length s < first then Inl std_out_of_range
      else Inr (case len of None \<Rightarrow> drop first s | Some n \<Rightarrow> take n (drop first s)))"

text \<open>
  Modelled from the spec: \<^verbatim>\<open>String::Split\<close> (class String, not in the sources): the
  text "is split on \<^verbatim>\<open>;\<close>", the fields kept "in order, including empty ones (no
  trimming, no de-duplication)". As \<^verbatim>\<open>boost::algorithm::split\<close> with
  \<^verbatim>\<open>is_any_of\<close>, which it forwards to: one field more than there are separators,
  so the empty text has the single field \<open>''''\<close>.
\<close>

fun Split :: "string \<Rightarrow> string \<Rightarrow> string list" where
  "Split [] seps = [[]]"
| "Split (c # cs) seps =
     (if c \<in> set seps then [] # Split cs seps
      else (case Split cs seps of [] \<Rightarrow> [[c]] | t # ts \<Rightarrow> (c # t) # ts))"

subsection \<open>The logger and the execution engine\<close>

datatype LogSeverity = LogInformation | LogWarning

type_synonym log_entry = "LogSeverity \<times> string \<times> string"

text \<open>
  What \<^verbatim>\<open>ProcessCommand\<close> acts on: the log written by \<^verbatim>\<open>Logger::Write\<close> and the
  calls of \<^verbatim>\<open>ExternalCommand::Execute\<close>, each with its timestamp, command name and
  arguments, in the order they were made.
\<close>

record application =
  log :: "log_entry list"
  executed :: "(real \<times> string \<times> string list) list"

definition Logger_Write :: "LogSeverity \<Rightarrow> string \<Rightarrow> string \<Rightarrow> application \<Rightarrow> application" where
  "Logger_Write severity facility message app =
     app\<lparr>log := log app @ [(severity, facility, message)]\<rparr>"

subsection \<open>ProcessCommand\<close>

text \<open>
  \<^verbatim>\<open>String::ToDouble\<close> and \<^verbatim>\<open>ExternalCommand::Execute\<close> are not in the sources and
  are parameters: \<open>ToDouble\<close> is any conversion of text to a number, \<open>Execute\<close>
  returns \<open>Some what\<close> when the engine raises an exception with that message and
  \<open>None\<close> when it returns. The exception of \<open>SubStr\<close> leaves \<^verbatim>\<open>ProcessCommand\<close>:
  both calls are made before the \<^verbatim>\<open>try\<close> block. In \<open>pos - 1\<close> the position is at
  least 1, since the first character is \<^verbatim>\<open>[\<close>.
\<close>

definition ProcessCommand ::
  "(string \<Rightarrow> real) \<Rightarrow> (real \<Rightarrow> string \<Rightarrow> string list \<Rightarrow> string option) \<Rightarrow>
   string \<Rightarrow> application \<Rightarrow> exception + application" where
  "ProcessCommand ToDouble Execute command app =
    (if command = [] then Inr app
     else if hd command \<noteq> CHR ''['' then
       Inr (Logger_Write LogWarning ''compat'' (''Missing timestamp in command: '' @ command) app)
     else
       (case FindFirstOf command '']'' of
          None \<Rightarrow>
            Inr (Logger_Write LogWarning ''compat''
                  (''Missing timestamp in command: '' @ command) app)
        | Some pos \<Rightarrow>
           (case SubStr command 1 (Some (pos - 1)) of
              Inl e \<Rightarrow> Inl e
            | Inr timestamp \<Rightarrow>
               (case SubStr command (pos + 2) None of
                  Inl e \<Rightarrow> Inl e
                | Inr args \<Rightarrow>
                   (let ts = ToDouble timestamp in
                    if ts = 0 then
                      Inr (Logger_Write LogWarning ''compat''
                            (''Invalid timestamp in command: '' @ command) app)
                    else
                      (let argv = Split args '';'' in
                       if length argv = 0 then
                         Inr (Logger_Write LogWarning ''compat''
                               (''Missing arguments in command: '' @ command) app)
                       else
                         (let argvExtra = tl argv;
                              app1 = Logger_Write LogInformation ''compat''
                                       (''Executing external command: '' @ command) app;
                              app2 = app1\<lparr>executed := executed app1 @ [(ts, hd argv, argvExtra)]\<rparr>
                          in case Execute ts (hd argv) argvExtra of
                               None \<Rightarrow> Inr app2
                             | Some what \<Rightarrow>
                                 Inr (Logger_Write LogWarning ''compat''
                                       (''External command failed: '' @ what) app2))))))))"

text \<open>
  The three failure kinds of the spec are the three warnings of \<^verbatim>\<open>ProcessCommand\<close>;
  a line that fails with a kind leaves that warning in the log and calls nothing.
\<close>

datatype failure = MissingTimestamp | InvalidTimestamp | MissingArguments

fun failure_text :: "failure \<Rightarrow> string" where
  "failure_text MissingTimestamp = ''Missing timestamp in command: ''"
| "failure_text InvalidTimestamp = ''Invalid timestamp in command: ''"
| "failure_text MissingArguments = ''Missing arguments in command: ''"

definition fails_with :: "failure \<Rightarrow> string \<Rightarrow> application \<Rightarrow> application" where
  "fails_with kind command app =
     app\<lparr>log := log app @ [(LogWarning, ''compat'', failure_text kind @ command)]\<rparr>"

text \<open>
  Sample parameters for closed instances: a conversion that reads an unsigned decimal
  integer and gives 0 for any other text, an engine that accepts every command, and an
  application that has logged and executed nothing.
\<close>

definition digit :: "char \<Rightarrow> nat option" where
  "digit c = map_of (zip ''0123456789'' [0, 1, 2, 3, 4, 5, 6, 7, 8, 9]) c"

fun digits_value :: "nat \<Rightarrow> string \<Rightarrow> nat option" where
  "digits_value acc [] = Some acc"
| "digits_value acc (c # cs) =
     (case digit c of None \<Rightarrow> None | Some d \<Rightarrow> digits_value (10 * acc + d) cs)"

definition ToDouble_digits :: "string \<Rightarrow> real" where
  "ToDouble_digits s =
     (if s = [] then 0 else case digits_value 0 s of None \<Rightarrow> 0 | Some n \<Rightarrow> real n)"

definition Execute_accepts :: "real \<Rightarrow> string \<Rightarrow> string list \<Rightarrow> string option" where
  "Execute_accepts ts name arguments = None"

definition app0 :: application where
  "app0 = \<lparr>log = [], executed = []\<rparr>"

subsection \<open>Output streams\<close>

text \<open>
  An \<^verbatim>\<open>ofstream\<close> is the list of the values inserted with \<^verbatim>\<open><<\<close>, in order: a
  string, an \<^verbatim>\<open>int\<close> or \<^verbatim>\<open>long\<close>, a \<^verbatim>\<open>double\<close> (printed in fixed notation by
  the stream), the clock reading \<^verbatim>\<open>Utility::GetTime()\<close> and the clock reading
  \<^verbatim>\<open>time(NULL)\<close> at the moment of the insertion. How the stream prints a number is the
  library's business and is not modelled.
\<close>

datatype token = TStr string | TInt int | TDouble real | TGetTime | TTime

abbreviation NL :: string where "NL \<equiv> [CHR 0x0A]"

abbreviation TAB :: string where "TAB \<equiv> [CHR 0x09]"

subsection \<open>The object registry\<close>

text \<open>
  The objects are taken as the values their getters return during one run of
  \<^verbatim>\<open>StatusTimerHandler\<close>. A \<^verbatim>\<open>set\<close> of objects is the list of its elements in
  iteration order. The classes are declared outside the sources at hand; times and
  intervals are taken as \<^verbatim>\<open>double\<close>, counters and enumeration values as \<^verbatim>\<open>int\<close>.
\<close>

datatype Host =
  Host (Host_Name: string) (Host_Alias: string) (Host_IsReachable: bool) (Host_IsUp: bool)
       (Host_Parents: "Host list")

record HostGroup =
  HostGroup_Name :: string
  HostGroup_Alias :: string
  HostGroup_NotesUrl :: string
  HostGroup_ActionUrl :: string
  HostGroup_Members :: "Host list"

text \<open>
  The six entries of a check result that \<^verbatim>\<open>DumpServiceStatus\<close> reads with
  \<^verbatim>\<open>cr->Get\<close>, as the conversions of \<^verbatim>\<open>Value\<close> deliver them.
\<close>

record CheckResult =
  cr_output :: string
  cr_schedule_start :: real
  cr_schedule_end :: real
  cr_execution_start :: real
  cr_execution_end :: real
  cr_performance_data_raw :: string

record Service =
  Service_Host :: Host
  Service_Alias :: string
  Service_CheckInterval :: real
  Service_RetryInterval :: real
  Service_LastCheckResult :: "CheckResult option"
  Service_State :: int
  Service_StateType :: int
  Service_NextCheck :: real
  Service_CurrentCheckAttempt :: int
  Service_MaxCheckAttempts :: int
  Service_LastStateChange :: real
  Service_LastHardStateChange :: real
  Service_EnableActiveChecks :: bool
  Service_EnablePassiveChecks :: bool
  Service_Acknowledgement :: int
  Service_AcknowledgementExpiry :: real

record ServiceGroup =
  ServiceGroup_Name :: string
  ServiceGroup_Alias :: string
  ServiceGroup_NotesUrl :: string
  ServiceGroup_ActionUrl :: string
  ServiceGroup_Members :: "Service list"

text \<open>
  \<^verbatim>\<open>DynamicType::GetByName(t)->GetObjects()\<close> for the four types, each as the list
  of its objects in the order the loop visits them.
\<close>

record registry =
  Hosts :: "Host list"
  HostGroups :: "HostGroup list"
  Services :: "Service list"
  ServiceGroups :: "ServiceGroup list"

text \<open>
  The enumeration constants \<^verbatim>\<open>StateUnknown\<close> and \<^verbatim>\<open>AcknowledgementNone\<close> are
  declared outside the sources at hand and are parameters, as are the process id, the
  start time of the application and \<^verbatim>\<open>CIB::GetTaskStatistics\<close>.
\<close>

record constants =
  StateUnknown :: int
  AcknowledgementNone :: int

record environment =
  GetPid :: int
  GetStartTime :: real
  GetTaskStatistics :: "int \<Rightarrow> int"

subsection \<open>Name lists\<close>

text \<open>
  Modelled from the spec: the templates \<^verbatim>\<open>DumpNameList\<close> and \<^verbatim>\<open>DumpStringList\<close>
  (declared with the class, not in the sources): list-valued fields "render as a
  comma-joined list of names". A loop over the container that writes a comma before
  every element but the first; \<^verbatim>\<open>DumpNameList\<close> writes the name of each object.
\<close>

fun dump_list_from :: "bool \<Rightarrow> token list \<Rightarrow> string list \<Rightarrow> token list" where
  "dump_list_from at_begin fp [] = fp"
| "dump_list_from at_begin fp (x # xs) =
     dump_list_from False ((if at_begin then fp else fp @ [TStr '','']) @ [TStr x]) xs"

definition DumpStringList :: "token list \<Rightarrow> string list \<Rightarrow> token list" where
  "DumpStringList fp list = dump_list_from True fp list"

definition DumpNameList :: "token list \<Rightarrow> Host list \<Rightarrow> token list" where
  "DumpNameList fp list = dump_list_from True fp (map Host_Name list)"

subsection \<open>The blocks of status.dat and objects.cache\<close>

definition DumpHostStatus :: "token list \<Rightarrow> Host \<Rightarrow> token list" where
  "DumpHostStatus fp host =
    (let state = (if \<not> Host_IsReachable host then 2
                  else if \<not> Host_IsUp host then 1
                  else (0::int))
     in fp @
      [TStr ''hoststatus {'', TStr NL,
       TStr TAB, TStr ''host_name='', TStr (Host_Name host), TStr NL,
       TStr TAB, TStr ''has_been_checked=1'', TStr NL,
       TStr TAB, TStr ''should_be_scheduled=1'', TStr NL,
       TStr TAB, TStr ''check_execution_time=0'', TStr NL,
       TStr TAB, TStr ''check_latency=0'', TStr NL,
       TStr TAB, TStr ''current_state='', TInt state, TStr NL,
       TStr TAB, TStr ''state_type=1'', TStr NL,
       TStr TAB, TStr ''last_check='', TGetTime, TStr NL,
       TStr TAB, TStr ''next_check='', TGetTime, TStr NL,
       TStr TAB, TStr ''current_attempt=1'', TStr NL,
       TStr TAB, TStr ''max_attempts=1'', TStr NL,
       TStr TAB, TStr ''active_checks_enabled=1'', TStr NL,
       TStr TAB, TStr ''passive_checks_enabled=1'', TStr NL,
       TStr TAB, TStr ''last_update='', TGetTime, TStr NL,
       TStr TAB, TStr ''}'', TStr NL,
       TStr NL])"

definition DumpHostObject :: "token list \<Rightarrow> Host \<Rightarrow> token list" where
  "DumpHostObject fp host =
    (let fp1 = fp @
      [TStr ''define host {'', TStr NL,
       TStr TAB, TStr ''host_name'', TStr TAB, TStr (Host_Name host), TStr NL,
       TStr TAB, TStr ''alias'', TStr TAB, TStr (Host_Alias host), TStr NL,
       TStr TAB, TStr ''check_interval'', TStr TAB, TInt 1, TStr NL,
       TStr TAB, TStr ''retry_interval'', TStr TAB, TInt 1, TStr NL,
       TStr TAB, TStr ''max_check_attempts'', TStr TAB, TInt 1, TStr NL,
       TStr TAB, TStr ''active_checks_enabled'', TStr TAB, TInt 1, TStr NL,
       TStr TAB, TStr ''passive_checks_enabled'', TStr TAB, TInt 1, TStr NL];
         parents = Host_Parents host;
         fp2 = (if parents \<noteq> [] then
                  DumpNameList (fp1 @ [TStr TAB, TStr ''parents'', TStr TAB]) parents @ [TStr NL]
                else fp1)
     in fp2 @ [TStr TAB, TStr ''}'', TStr NL, TStr NL])"

definition DumpServiceStatus :: "constants \<Rightarrow> token list \<Rightarrow> Service \<Rightarrow> token list" where
  "DumpServiceStatus c fp service =
    (let cr = Service_LastCheckResult service;
         output = (case cr of None \<Rightarrow> [] | Some r \<Rightarrow> cr_output r);
         perfdata = (case cr of None \<Rightarrow> [] | Some r \<Rightarrow> cr_performance_data_raw r);
         schedule_start = (case cr of None \<Rightarrow> - 1 | Some r \<Rightarrow> cr_schedule_start r);
         schedule_end = (case cr of None \<Rightarrow> - 1 | Some r \<Rightarrow> cr_schedule_end r);
         execution_start = (case cr of None \<Rightarrow> - 1 | Some r \<Rightarrow> cr_execution_start r);
         execution_end = (case cr of None \<Rightarrow> - 1 | Some r \<Rightarrow> cr_execution_end r);
         execution_time = execution_end - execution_start;
         latency = (schedule_end - schedule_start) - execution_time;
         state = (if Service_State service > StateUnknown c then StateUnknown c
                  else Service_State service)
     in fp @
      [TStr ''servicestatus {'', TStr NL,
       TStr TAB, TStr ''host_name='', TStr (Host_Name (Service_Host service)), TStr NL,
       TStr TAB, TStr ''service_description='', TStr (Service_Alias service), TStr NL,
       TStr TAB, TStr ''check_interval='', TDouble (Service_CheckInterval service / 60), TStr NL,
       TStr TAB, TStr ''retry_interval='', TDouble (Service_RetryInterval service / 60), TStr NL,
       TStr TAB, TStr ''has_been_checked='',
         TInt (if Service_LastCheckResult service \<noteq> None then 1 else 0), TStr NL,
       TStr TAB, TStr ''should_be_scheduled=1'', TStr NL,
       TStr TAB, TStr ''check_execution_time='', TDouble execution_time, TStr NL,
       TStr TAB, TStr ''check_latency='', TDouble latency, TStr NL,
       TStr TAB, TStr ''current_state='', TInt state, TStr NL,
       TStr TAB, TStr ''state_type='', TInt (Service_StateType service), TStr NL,
       TStr TAB, TStr ''plugin_output='', TStr output, TStr NL,
       TStr TAB, TStr ''performance_data='', TStr perfdata, TStr NL,
       TStr TAB, TStr ''last_check='', TDouble schedule_end, TStr NL,
       TStr TAB, TStr ''next_check='', TDouble (Service_NextCheck service), TStr NL,
       TStr TAB, TStr ''current_attempt='', TInt (Service_CurrentCheckAttempt service), TStr NL,
       TStr TAB, TStr ''max_attempts='', TInt (Service_MaxCheckAttempts service), TStr NL,
       TStr TAB, TStr ''last_state_change='', TDouble (Service_LastStateChange service), TStr NL,
       TStr TAB, TStr ''last_hard_state_change='',
         TDouble (Service_LastHardStateChange service), TStr NL,
       TStr TAB, TStr ''last_update='', TTime, TStr NL,
       TStr TAB, TStr ''active_checks_enabled='',
         TInt (if Service_EnableActiveChecks service then 1 else 0), TStr NL,
       TStr TAB, TStr ''passive_checks_enabled='',
         TInt (if Service_EnablePassiveChecks service then 1 else 0), TStr NL,
       TStr TAB, TStr ''problem_has_been_acknowledged='',
         TInt (if Service_Acknowledgement service \<noteq> AcknowledgementNone c then 1 else 0), TStr NL,
       TStr TAB, TStr ''acknowledgement_type='', TInt (Service_Acknowledgement service), TStr NL,
       TStr TAB, TStr ''acknowledgement_end_time='',
         TDouble (Service_AcknowledgementExpiry service), TStr NL,
       TStr TAB, TStr ''}'', TStr NL,
       TStr NL])"

definition DumpServiceObject :: "token list \<Rightarrow> Service \<Rightarrow> token list" where
  "DumpServiceObject fp service = fp @
      [TStr ''define service {'', TStr NL,
       TStr TAB, TStr ''host_name'', TStr TAB, TStr (Host_Name (Service_Host service)), TStr NL,
       TStr TAB, TStr ''service_description'', TStr TAB, TStr (Service_Alias service), TStr NL,
       TStr TAB, TStr ''check_command'', TStr TAB, TStr ''check_i2'', TStr NL,
       TStr TAB, TStr ''check_interval'', TStr TAB,
         TDouble (Service_CheckInterval service / 60), TStr NL,
       TStr TAB, TStr ''retry_interval'', TStr TAB,
         TDouble (Service_RetryInterval service / 60), TStr NL,
       TStr TAB, TStr ''max_check_attempts'', TStr TAB, TInt 1, TStr NL,
       TStr TAB, TStr ''active_checks_enabled'', TStr TAB,
         TInt (if Service_EnableActiveChecks service then 1 else 0), TStr NL,
       TStr TAB, TStr ''passive_checks_enabled'', TStr TAB,
         TInt (if Service_EnablePassiveChecks service then 1 else 0), TStr NL,
       TStr TAB, TStr ''}'', TStr NL,
       TStr NL]"

subsection \<open>StatusTimerHandler\<close>

text \<open>
  The two streams \<^verbatim>\<open>statusfp\<close> and \<^verbatim>\<open>objectfp\<close> of one run, from their opening to
  their closing. The bodies of the loops over the host groups and the service groups
  are written in place in the source and are named here. The log line at the start and
  the two renames at the end are left out.
\<close>

record streams =
  statusfp :: "token list"
  objectfp :: "token list"

definition status_header :: "environment \<Rightarrow> token list" where
  "status_header env =
      [TStr ''# Icinga status file'', TStr NL,
       TStr ''# This file is auto-generated. Do not modify this file.'', TStr NL,
       TStr NL] @
      [TStr ''info {'', TStr NL,
       TStr TAB, TStr ''created='', TGetTime, TStr NL,
       TStr TAB, TStr ''version=2.0'', TStr NL,
       TStr TAB, TStr ''}'', TStr NL,
       TStr NL] @
      [TStr ''programstatus {'', TStr NL,
       TStr ''icinga_pid='', TInt (GetPid env), TStr NL,
       TStr TAB, TStr ''daemon_mode=1'', TStr NL,
       TStr TAB, TStr ''program_start='', TDouble (GetStartTime env), TStr NL,
       TStr TAB, TStr ''active_service_checks_enabled=1'', TStr NL,
       TStr TAB, TStr ''passive_service_checks_enabled=1'', TStr NL,
       TStr TAB, TStr ''active_host_checks_enabled=0'', TStr NL,
       TStr TAB, TStr ''passive_host_checks_enabled=0'', TStr NL,
       TStr TAB, TStr ''check_service_freshness=0'', TStr NL,
       TStr TAB, TStr ''check_host_freshness=0'', TStr NL,
       TStr TAB, TStr ''enable_flap_detection=1'', TStr NL,
       TStr TAB, TStr ''enable_failure_prediction=0'', TStr NL,
       TStr TAB, TStr ''active_scheduled_service_check_stats='',
         TInt (GetTaskStatistics env 60), TStr '','',
         TInt (GetTaskStatistics env (5 * 60)), TStr '','',
         TInt (GetTaskStatistics env (15 * 60)), TStr NL,
       TStr TAB, TStr ''}'', TStr NL,
       TStr NL]"

definition objects_header :: "token list" where
  "objects_header =
      [TStr ''# Icinga objects cache file'', TStr NL,
       TStr ''# This file is auto-generated. Do not modify this file.'', TStr NL,
       TStr NL]"

definition dump_hostgroup :: "token list \<Rightarrow> HostGroup \<Rightarrow> token list" where
  "dump_hostgroup fp hg =
    (let fp1 = fp @
      [TStr ''define hostgroup {'', TStr NL,
       TStr TAB, TStr ''hostgroup_name'', TStr TAB, TStr (HostGroup_Name hg), TStr NL,
       TStr TAB, TStr ''alias'', TStr TAB, TStr (HostGroup_Alias hg), TStr NL,
       TStr TAB, TStr ''notes_url'', TStr TAB, TStr (HostGroup_NotesUrl hg), TStr NL,
       TStr TAB, TStr ''action_url'', TStr TAB, TStr (HostGroup_ActionUrl hg), TStr NL];
         fp2 = fp1 @ [TStr TAB, TStr ''members'', TStr TAB];
         fp3 = DumpNameList fp2 (HostGroup_Members hg)
     in fp3 @ [TStr NL, TStr ''}'', TStr NL])"

definition dump_servicegroup :: "token list \<Rightarrow> ServiceGroup \<Rightarrow> token list" where
  "dump_servicegroup fp sg =
    (let fp1 = fp @
      [TStr ''define servicegroup {'', TStr NL,
       TStr TAB, TStr ''servicegroup_name'', TStr TAB, TStr (ServiceGroup_Name sg), TStr NL,
       TStr TAB, TStr ''alias'', TStr TAB, TStr (ServiceGroup_Alias sg), TStr NL,
       TStr TAB, TStr ''notes_url'', TStr TAB, TStr (ServiceGroup_NotesUrl sg), TStr NL,
       TStr TAB, TStr ''action_url'', TStr TAB, TStr (ServiceGroup_ActionUrl sg), TStr NL];
         fp2 = fp1 @ [TStr TAB, TStr ''members'', TStr TAB];
         sglist = fold (\<lambda>service sglist.
                     sglist @ [Host_Name (Service_Host service)] @ [Service_Alias service])
                   (ServiceGroup_Members sg) [];
         fp3 = DumpStringList fp2 sglist
     in fp3 @ [TStr NL, TStr ''}'', TStr NL])"

definition StatusTimerHandler :: "constants \<Rightarrow> environment \<Rightarrow> registry \<Rightarrow> streams" where
  "StatusTimerHandler c env reg =
    (let fs0 = \<lparr>statusfp = status_header env, objectfp = objects_header\<rparr>;
         fs1 = fold (\<lambda>host fs.
                   \<lparr>statusfp = DumpHostStatus (statusfp fs) host,
                    objectfp = DumpHostObject (objectfp fs) host\<rparr>)
                 (Hosts reg) fs0;
         fs2 = fold (\<lambda>hg fs. fs\<lparr>objectfp := dump_hostgroup (objectfp fs) hg\<rparr>)
                 (HostGroups reg) fs1;
         fs3 = fold (\<lambda>service fs.
                   \<lparr>statusfp = DumpServiceStatus c (statusfp fs) service,
                    objectfp = DumpServiceObject (objectfp fs) service\<rparr>)
                 (Services reg) fs2;
         fs4 = fold (\<lambda>sg fs. fs\<lparr>objectfp := dump_servicegroup (objectfp fs) sg\<rparr>)
                 (ServiceGroups reg) fs3
     in fs4)"

subsection \<open>Reading the files back\<close>

text \<open>
  What a block says about a key. In \<^verbatim>\<open>status.dat\<close> a line is a tab, the key with
  its \<^verbatim>\<open>=\<close> and the value, or a tab and one fixed text; in \<^verbatim>\<open>objects.cache\<close> a
  line is a tab, the key, a tab and the value, and \<open>objects_value\<close> returns all that
  was written after the second tab.
\<close>

fun status_value :: "string \<Rightarrow> token list \<Rightarrow> token option" where
  "status_value key (TStr a # TStr b # v # rest) =
     (if a = TAB \<and> b = key then Some v else status_value key (TStr b # v # rest))"
| "status_value key (t # rest) = status_value key rest"
| "status_value key [] = None"

fun status_line :: "string \<Rightarrow> token list \<Rightarrow> bool" where
  "status_line text (TStr a # TStr b # TStr c # rest) =
     (if a = TAB \<and> b = text \<and> c = NL then True else status_line text (TStr b # TStr c # rest))"
| "status_line text (t # rest) = status_line text rest"
| "status_line text [] = False"

fun objects_value :: "string \<Rightarrow> token list \<Rightarrow> token list option" where
  "objects_value key (TStr a # TStr b # TStr c # rest) =
     (if a = TAB \<and> b = key \<and> c = TAB then Some rest
      else objects_value key (TStr b # TStr c # rest))"
| "objects_value key (t # rest) = objects_value key rest"
| "objects_value key [] = None"

text \<open>
  The text of a run of string tokens, and the comma-joined list of the spec.
\<close>

fun text_of :: "token list \<Rightarrow> string option" where
  "text_of [] = Some []"
| "text_of (TStr s # rest) = map_option ((@) s) (text_of rest)"
| "text_of (t # rest) = None"

fun comma_join :: "string list \<Rightarrow> string" where
  "comma_join [] = []"
| "comma_join [x] = x"
| "comma_join (x # y # ys) = x @ '','' @ comma_join (y # ys)"

subsection \<open>CommandPipeThread\<close>

text \<open>
  The thread talks to the operating system, so its model is run against the answers
  the system gives. The state of the thread is the list of the system calls it has
  made and the list of the commands it has handed to \<^verbatim>\<open>Event::Post\<close> for
  \<^verbatim>\<open>ProcessCommand\<close>.
\<close>

datatype syscall =
  sys_lstat | sys_access | sys_unlink | sys_mkfifo | sys_open | sys_fdopen | sys_close
  | sys_fclose

record thread =
  calls :: "syscall list"
  posted :: "string list"

definition call :: "syscall \<Rightarrow> thread \<Rightarrow> thread" where
  "call s th = th\<lparr>calls := calls th @ [s]\<rparr>"

text \<open>
  The answers at startup: whether \<^verbatim>\<open>lstat\<close> finds a node at the command path,
  whether \<^verbatim>\<open>S_ISFIFO\<close> holds of its mode, and whether \<^verbatim>\<open>access\<close>, \<^verbatim>\<open>unlink\<close> and
  \<^verbatim>\<open>mkfifo\<close> succeed when they are called.
\<close>

record startup =
  lstat_ok :: bool
  is_fifo :: bool
  access_ok :: bool
  unlink_ok :: bool
  mkfifo_ok :: bool

text \<open>
  The statements before the loop. \<^verbatim>\<open>access\<close> is called only for a FIFO and
  \<^verbatim>\<open>mkfifo\<close> only when \<^verbatim>\<open>fifo_ok\<close> is false, as \<^verbatim>\<open>&&\<close> evaluates. A thrown
  exception comes with the state of the thread at the throw.
\<close>

definition CommandPipeThread_setup :: "startup \<Rightarrow> thread \<Rightarrow> exception \<times> thread + thread" where
  "CommandPipeThread_setup os th0 =
    (let th1 = call sys_lstat th0;
         checked =
           (if lstat_ok os then
              (let th2 = (if is_fifo os then call sys_access th1 else th1) in
               if is_fifo os \<and> access_ok os then Inr (True, th2)
               else
                 (let th3 = call sys_unlink th2 in
                  if \<not> unlink_ok os then Inl (PosixException ''unlink() failed'', th3)
                  else Inr (False, th3)))
            else Inr (False, th1))
     in case checked of
          Inl thrown \<Rightarrow> Inl thrown
        | Inr (fifo_ok, th) \<Rightarrow>
            if fifo_ok then Inr th
            else
              (let th4 = call sys_mkfifo th in
               if \<not> mkfifo_ok os then Inl (PosixException ''mkfifo() failed'', th4)
               else Inr th4))"

text \<open>
  The inner loop that removes the trailing new-line: while the line is not empty and
  ends in a carriage return or a line feed, the last character is cut off.
\<close>

function remove_trailing_newline :: "string \<Rightarrow> string" where
  "remove_trailing_newline line =
     (if length line > 0 \<and> (last line = CHR 0x0D \<or> last line = CHR 0x0A)
      then remove_trailing_newline (butlast line)
      else line)"
  by pat_completeness auto
termination
  by (relation "measure length") auto

declare remove_trailing_newline.simps [simp del]

text \<open>
  One pass of the outer loop is one session with a writer: \<^verbatim>\<open>open\<close> fails, or
  \<^verbatim>\<open>fdopen\<close> fails, or both succeed and \<^verbatim>\<open>fgets\<close> returns the given lines, one
  after the other, before it returns \<^verbatim>\<open>NULL\<close> at the end of the stream. The loop is
  run against the sessions that happen; when they are used up the thread is inside the
  next \<^verbatim>\<open>open\<close>, waiting for a writer.
\<close>

datatype session = open_fails | fdopen_fails | reads "string list"

datatype outcome = Thrown exception thread | Blocked thread

definition post_line :: "string \<Rightarrow> thread \<Rightarrow> thread" where
  "post_line line th = th\<lparr>posted := posted th @ [remove_trailing_newline line]\<rparr>"

fun CommandPipeThread_loop :: "session list \<Rightarrow> thread \<Rightarrow> outcome" where
  "CommandPipeThread_loop [] th = Blocked (call sys_open th)"
| "CommandPipeThread_loop (open_fails # rest) th =
     Thrown (PosixException ''open() failed'') (call sys_open th)"
| "CommandPipeThread_loop (fdopen_fails # rest) th =
     Thrown (PosixException ''fdopen() failed'')
       (call sys_close (call sys_fdopen (call sys_open th)))"
| "CommandPipeThread_loop (reads lines # rest) th =
     CommandPipeThread_loop rest
       (call sys_fclose (fold post_line lines (call sys_fdopen (call sys_open th))))"

definition CommandPipeThread :: "startup \<Rightarrow> session list \<Rightarrow> thread \<Rightarrow> outcome" where
  "CommandPipeThread os sessions th =
     (case CommandPipeThread_setup os th of
        Inl (e, th') \<Rightarrow> Thrown e th'
      | Inr th' \<Rightarrow> CommandPipeThread_loop sessions th')"

definition thread0 :: thread where
  "thread0 = \<lparr>calls = [], posted = []\<rparr>"

text \<open>
  Sample parameters for closed instances: the constants as the enumerations of Icinga
  number them, and an environment.
\<close>

definition c0 :: constants where
  "c0 = \<lparr>StateUnknown = 3, AcknowledgementNone = 0\<rparr>"

definition env0 :: environment where
  "env0 = \<lparr>GetPid = 1, GetStartTime = 0, GetTaskStatistics = (\<lambda>timespan. 0)\<rparr>"

section \<open>Properties\<close>

subsection \<open>Decoding a command line\<close>

lemma FindFirstOf_absent: "set s \<inter> set chars = {} \<Longrightarrow> FindFirstOf s chars = None"
  by (induction s) auto

lemma FindFirstOf_first:
  "set T \<inter> set chars = {} \<Longrightarrow> c \<in> set chars \<Longrightarrow>
   FindFirstOf (T @ c # rest) chars = Some (length T)"
  by (induction T) auto

lemma Split_nonempty: "Split s seps \<noteq> []"
  by (induction s) (auto split: list.splits)

lemma Split_no_separator: "set s \<inter> set seps = {} \<Longrightarrow> Split s seps = [s]"
  by (induction s) auto

lemma Split_at_separator:
  "set s \<inter> set seps = {} \<Longrightarrow> c \<in> set seps \<Longrightarrow>
   Split (s @ c # rest) seps = s # Split rest seps"
  by (induction s) auto

lemma Split_fields:
  "CHR '';'' \<notin> set name \<Longrightarrow> list_all (\<lambda>a. CHR '';'' \<notin> set a) arguments \<Longrightarrow>
   Split (name @ concat (map (\<lambda>a. CHR '';'' # a) arguments)) '';'' = name # arguments"
proof (induction arguments arbitrary: name)
  case Nil
  then show ?case by (simp add: Split_no_separator)
next
  case (Cons a arguments)
  have "Split (name @ CHR '';'' # (a @ concat (map (\<lambda>a. CHR '';'' # a) arguments))) '';''
        = name # Split (a @ concat (map (\<lambda>a. CHR '';'' # a) arguments)) '';''"
    using Cons.prems(1) by (intro Split_at_separator) auto
  also have "Split (a @ concat (map (\<lambda>a. CHR '';'' # a) arguments)) '';'' = a # arguments"
    using Cons.prems(2) by (intro Cons.IH) auto
  finally show ?case by simp
qed

lemma FindFirstOf_bracket:
  "CHR '']'' \<notin> set T \<Longrightarrow> FindFirstOf (CHR ''['' # T @ CHR '']'' # rest) '']'' = Some (Suc (length T))"
  using FindFirstOf_first [of "CHR ''['' # T" "'']''" "CHR '']''" rest] by simp

text \<open>
  C1. A line \<^verbatim>\<open>[T] NAME;A;B\<close>, written here with any number of arguments after the
  name: when \<open>T\<close> converts to a non-zero number, \<^verbatim>\<open>ProcessCommand\<close> raises nothing
  and calls the engine once more, with the timestamp of \<open>T\<close>, the name and the
  arguments as written, in order, empty ones included. For \<^verbatim>\<open>NAME;A;B\<close> the argument
  list is \<open>[A, B]\<close>.
\<close>

theorem ProcessCommand_well_formed:
  assumes "CHR '']'' \<notin> set T" and "ToDouble T \<noteq> 0"
    and "CHR '';'' \<notin> set NAME" and "\<forall>a \<in> set arguments. CHR '';'' \<notin> set a"
  shows "\<exists>app'. ProcessCommand ToDouble Execute
           (''['' @ T @ ''] '' @ NAME @ concat (map (\<lambda>a. CHR '';'' # a) arguments)) app = Inr app'
         \<and> executed app' = executed app @ [(ToDouble T, NAME, arguments)]"
proof -
  let ?rest = "NAME @ concat (map (\<lambda>a. CHR '';'' # a) arguments)"
  let ?line = "CHR ''['' # T @ CHR '']'' # CHR '' '' # ?rest"
  have pos: "FindFirstOf ?line '']'' = Some (Suc (length T))"
    using assms(1) by (rule FindFirstOf_bracket)
  have ts: "SubStr ?line 1 (Some (Suc (length T) - 1)) = Inr T"
    by (simp add: SubStr_def)
  have args: "SubStr ?line (Suc (length T) + 2) None = Inr ?rest"
    by (simp add: SubStr_def)
  have argv: "Split ?rest '';'' = NAME # arguments"
    using assms(3,4) by (intro Split_fields) (simp_all add: list_all_iff)
  show ?thesis
    using assms(2) pos ts args argv
    by (cases "Execute (ToDouble T) NAME arguments")
       (simp_all add: ProcessCommand_def Logger_Write_def)
qed

text \<open>The first end-to-end scenario of the spec is an instance.\<close>

theorem ProcessCommand_well_formed_witness:
  "\<exists>app'. ProcessCommand ToDouble_digits Execute_accepts
      ''[1700000000] SCHEDULE_SVC_CHECK;myhost;myservice;1700000100'' app0 = Inr app'
    \<and> executed app' =
        [(1700000000, ''SCHEDULE_SVC_CHECK'', [''myhost'', ''myservice'', ''1700000100''])]"
  using ProcessCommand_well_formed [of "''1700000000''" ToDouble_digits "''SCHEDULE_SVC_CHECK''"
      "[''myhost'', ''myservice'', ''1700000100'']" Execute_accepts app0]
  by (simp add: ToDouble_digits_def digit_def app0_def)

lemma fails_with_executed: "executed (fails_with kind command app) = executed app"
  by (simp add: fails_with_def)

text \<open>
  C2, as amended. The empty line is dropped with no failure reported. A non-empty line
  that does not start with \<^verbatim>\<open>[\<close>, and a line that starts with \<^verbatim>\<open>[\<close> and has no
  \<^verbatim>\<open>]\<close>, fail with \<open>MissingTimestamp\<close>. A line \<^verbatim>\<open>[T]\<close> followed by at least one
  more character fails with \<open>InvalidTimestamp\<close> when \<open>T\<close> converts to 0. A failure
  is one warning in the log; the list of executed commands is as it was.
\<close>

theorem ProcessCommand_failures:
  "ProcessCommand ToDouble Execute [] app = Inr app
   \<and> (line \<noteq> [] \<and> hd line \<noteq> CHR ''['' \<longrightarrow>
        ProcessCommand ToDouble Execute line app = Inr (fails_with MissingTimestamp line app))
   \<and> (CHR '']'' \<notin> set r \<longrightarrow>
        ProcessCommand ToDouble Execute (CHR ''['' # r) app
          = Inr (fails_with MissingTimestamp (CHR ''['' # r) app))
   \<and> (CHR '']'' \<notin> set T \<and> ToDouble T = 0 \<longrightarrow>
        ProcessCommand ToDouble Execute (CHR ''['' # T @ CHR '']'' # c # rest) app
          = Inr (fails_with InvalidTimestamp (CHR ''['' # T @ CHR '']'' # c # rest) app))"
proof (intro conjI impI)
  show "ProcessCommand ToDouble Execute [] app = Inr app"
    by (simp add: ProcessCommand_def)
next
  assume "line \<noteq> [] \<and> hd line \<noteq> CHR ''[''"
  then show "ProcessCommand ToDouble Execute line app = Inr (fails_with MissingTimestamp line app)"
    by (simp add: ProcessCommand_def Logger_Write_def fails_with_def)
next
  assume "CHR '']'' \<notin> set r"
  then have "FindFirstOf (CHR ''['' # r) '']'' = None"
    by (intro FindFirstOf_absent) simp
  then show "ProcessCommand ToDouble Execute (CHR ''['' # r) app
          = Inr (fails_with MissingTimestamp (CHR ''['' # r) app)"
    by (simp add: ProcessCommand_def Logger_Write_def fails_with_def)
next
  let ?line = "CHR ''['' # T @ CHR '']'' # c # rest"
  assume a: "CHR '']'' \<notin> set T \<and> ToDouble T = 0"
  then have pos: "FindFirstOf ?line '']'' = Some (Suc (length T))"
    by (intro FindFirstOf_bracket) simp
  have ts: "SubStr ?line 1 (Some (Suc (length T) - 1)) = Inr T"
    by (simp add: SubStr_def)
  have args: "SubStr ?line (Suc (length T) + 2) None = Inr rest"
    by (simp add: SubStr_def)
  show "ProcessCommand ToDouble Execute ?line app = Inr (fails_with InvalidTimestamp ?line app)"
    using a pos ts args by (simp add: ProcessCommand_def Logger_Write_def fails_with_def)
qed

text \<open>Scenarios 2 and 3 of the spec are instances.\<close>

theorem ProcessCommand_failures_witness:
  "ProcessCommand ToDouble_digits Execute_accepts [] app0 = Inr app0
   \<and> ProcessCommand ToDouble_digits Execute_accepts ''garbage'' app0
       = Inr (fails_with MissingTimestamp ''garbage'' app0)
   \<and> ProcessCommand ToDouble_digits Execute_accepts ''[12 CMD'' app0
       = Inr (fails_with MissingTimestamp ''[12 CMD'' app0)
   \<and> ProcessCommand ToDouble_digits Execute_accepts ''[0] CMD;arg'' app0
       = Inr (fails_with InvalidTimestamp ''[0] CMD;arg'' app0)"
  using ProcessCommand_failures [of ToDouble_digits Execute_accepts app0 "''garbage''"
      "''12 CMD''" "''0''" "CHR '' ''" "''CMD;arg''"]
  by (simp add: ToDouble_digits_def digit_def)

text \<open>
  C2 as stated fails at the empty line: it does not start with \<^verbatim>\<open>[\<close>, and the guard
  \<^verbatim>\<open>if (command.IsEmpty()) return;\<close> drops it before any warning is written.
\<close>

theorem empty_line_reports_no_failure:
  "ProcessCommand ToDouble_digits Execute_accepts [] app0 = Inr app0
   \<and> log app0 = []
   \<and> ProcessCommand ToDouble_digits Execute_accepts [] app0
       \<noteq> Inr (fails_with MissingTimestamp [] app0)"
  by (simp add: ProcessCommand_def fails_with_def app0_def)

text \<open>
  C10. The claim is that the remainder, taken two characters after the first \<^verbatim>\<open>]\<close>,
  is never taken out of range, and that \<^verbatim>\<open>[123]\<close> is handled without error. In the
  code the line \<^verbatim>\<open>[123]\<close> has length 5 and its \<^verbatim>\<open>]\<close> at position 4, so the
  remainder is asked for at position 6 and \<^verbatim>\<open>SubStr\<close> raises; the exception leaves
  \<^verbatim>\<open>ProcessCommand\<close>, whatever the conversion and the engine are.
\<close>

theorem ProcessCommand_line_ends_at_bracket:
  "FindFirstOf ''[123]'' '']'' = Some 4
   \<and> length ''[123]'' < 4 + 2
   \<and> ProcessCommand ToDouble Execute ''[123]'' app = Inl std_out_of_range"
  by (simp add: ProcessCommand_def SubStr_def)

text \<open>
  Two more lines on which the code does not report the failure the spec names. With an
  empty remainder \<open>Split\<close> gives the one field \<open>''''\<close>, so the test
  \<^verbatim>\<open>argv.size() == 0\<close> is false and the engine is called with the empty name. With a
  zero timestamp and nothing after the \<^verbatim>\<open>]\<close> the remainder is taken, and raises, before
  the timestamp is looked at.
\<close>

lemma empty_remainder_is_executed:
  "ProcessCommand ToDouble_digits Execute_accepts ''[5] '' app0
     = Inr \<lparr>log = [(LogInformation, ''compat'', ''Executing external command: [5] '')],
            executed = [(5, [], [])]\<rparr>"
  by (simp add: ProcessCommand_def SubStr_def ToDouble_digits_def digit_def Execute_accepts_def
      Logger_Write_def app0_def)

lemma zero_timestamp_at_line_end_raises:
  "ProcessCommand ToDouble_digits Execute_accepts ''[0]'' app0 = Inl std_out_of_range"
  by (simp add: ProcessCommand_def SubStr_def)

subsection \<open>Writing a list\<close>

lemma dump_list_from_append:
  "dump_list_from b fp xs = fp @ dump_list_from b [] xs"
proof (induction xs arbitrary: b fp)
  case Nil
  then show ?case by simp
next
  case (Cons x xs)
  show ?case
  proof (cases b)
    case True
    then show ?thesis
      using Cons.IH [of False "fp @ [TStr x]"] Cons.IH [of False "[TStr x]"] by simp
  next
    case False
    then show ?thesis
      using Cons.IH [of False "fp @ [TStr '','', TStr x]"]
            Cons.IH [of False "[TStr '','', TStr x]"] by simp
  qed
qed

lemma text_of_dump_rest:
  "text_of (dump_list_from False [] xs) = Some (concat (map (\<lambda>x. '','' @ x) xs))"
proof (induction xs)
  case Nil
  then show ?case by simp
next
  case (Cons x xs)
  have "dump_list_from False [] (x # xs) = [TStr '','', TStr x] @ dump_list_from False [] xs"
    using dump_list_from_append [of False "[TStr '','', TStr x]" xs] by simp
  then show ?case using Cons.IH by simp
qed

lemma comma_join_Cons: "comma_join (x # xs) = x @ concat (map (\<lambda>x. '','' @ x) xs)"
  by (induction xs arbitrary: x) auto

lemma text_of_dump_list: "text_of (dump_list_from True [] xs) = Some (comma_join xs)"
proof (cases xs)
  case Nil
  then show ?thesis by simp
next
  case (Cons x ys)
  have "dump_list_from True [] (x # ys) = [TStr x] @ dump_list_from False [] ys"
    using dump_list_from_append [of False "[TStr x]" ys] by simp
  then show ?thesis
    using Cons text_of_dump_rest [of ys] by (simp add: comma_join_Cons)
qed

lemma dump_list_from_Cons:
  "dump_list_from b (a # fp) xs = a # fp @ dump_list_from b [] xs"
  using dump_list_from_append [of b "a # fp" xs] by simp

lemma dump_list_from_append_Cons:
  "dump_list_from b (fp @ a # rest) xs = fp @ a # rest @ dump_list_from b [] xs"
  using dump_list_from_append [of b "fp @ a # rest" xs] by simp

lemma DumpNameList_append: "DumpNameList fp hosts = fp @ DumpNameList [] hosts"
  unfolding DumpNameList_def by (rule dump_list_from_append)

lemma DumpStringList_append: "DumpStringList fp xs = fp @ DumpStringList [] xs"
  unfolding DumpStringList_def by (rule dump_list_from_append)

subsection \<open>List-valued fields\<close>

lemma hostgroup_members:
  "objects_value ''members'' (dump_hostgroup [] hg)
     = Some (DumpNameList [] (HostGroup_Members hg) @ [TStr NL, TStr ''}'', TStr NL])"
  unfolding dump_hostgroup_def Let_def
  by (subst DumpNameList_append) simp

lemma host_parents_present:
  "Host_Parents h \<noteq> [] \<Longrightarrow> objects_value ''parents'' (DumpHostObject [] h)
     = Some (DumpNameList [] (Host_Parents h) @ [TStr NL, TStr TAB, TStr ''}'', TStr NL, TStr NL])"
  unfolding DumpHostObject_def Let_def
  by (subst DumpNameList_append) simp

lemma host_parents_absent:
  "Host_Parents h = [] \<Longrightarrow> objects_value ''parents'' (DumpHostObject [] h) = None"
  unfolding DumpHostObject_def Let_def
  by simp

lemma sglist_pairs:
  "fold (\<lambda>service sglist. sglist @ [Host_Name (Service_Host service)] @ [Service_Alias service])
     members acc
   = acc @ concat (map (\<lambda>service. [Host_Name (Service_Host service), Service_Alias service])
                    members)"
  by (induction members arbitrary: acc) simp_all

lemma servicegroup_members:
  "objects_value ''members'' (dump_servicegroup [] sg)
     = Some (DumpStringList []
               (concat (map (\<lambda>service. [Host_Name (Service_Host service), Service_Alias service])
                          (ServiceGroup_Members sg)))
             @ [TStr NL, TStr ''}'', TStr NL])"
  unfolding dump_servicegroup_def Let_def sglist_pairs
  by (subst DumpStringList_append) simp

text \<open>
  C3, as amended. The \<^verbatim>\<open>parents\<close> field of a host block is written only when the host
  has parents, and is left out of the block when it has none. The \<^verbatim>\<open>members\<close> field of
  a host group block and of a service group block is always written, with nothing after
  the tab when the group has no members. What is written for the list is the names
  joined by commas.
\<close>

theorem list_fields:
  "(Host_Parents h \<noteq> [] \<longrightarrow>
      objects_value ''parents'' (DumpHostObject [] h)
        = Some (DumpNameList [] (Host_Parents h)
                @ [TStr NL, TStr TAB, TStr ''}'', TStr NL, TStr NL]))
   \<and> (Host_Parents h = [] \<longrightarrow> objects_value ''parents'' (DumpHostObject [] h) = None)
   \<and> objects_value ''members'' (dump_hostgroup [] hg)
        = Some (DumpNameList [] (HostGroup_Members hg) @ [TStr NL, TStr ''}'', TStr NL])
   \<and> text_of (DumpNameList [] hosts) = Some (comma_join (map Host_Name hosts))
   \<and> objects_value ''members'' (dump_servicegroup [] sg)
        = Some (DumpStringList []
                  (concat (map (\<lambda>service. [Host_Name (Service_Host service),
                                             Service_Alias service])
                             (ServiceGroup_Members sg)))
                @ [TStr NL, TStr ''}'', TStr NL])
   \<and> text_of (DumpStringList [] names) = Some (comma_join names)"
  using host_parents_present [of h] host_parents_absent [of h] hostgroup_members [of hg]
    text_of_dump_list [of "map Host_Name hosts"] servicegroup_members [of sg]
    text_of_dump_list [of names]
  by (simp add: DumpNameList_def DumpStringList_def)

text \<open>
  A host with two parents, a host with none, a host group with no members and a
  service group with no members.
\<close>

theorem list_fields_witness:
  "objects_value ''parents''
      (DumpHostObject [] (Host ''web'' ''Web'' True True
         [Host ''gw1'' ''G1'' True True [], Host ''gw2'' ''G2'' True True []]))
     = Some ([TStr ''gw1'', TStr '','', TStr ''gw2'']
             @ [TStr NL, TStr TAB, TStr ''}'', TStr NL, TStr NL])
   \<and> objects_value ''parents'' (DumpHostObject [] (Host ''gw1'' ''G1'' True True [])) = None
   \<and> objects_value ''members''
        (dump_hostgroup [] \<lparr>HostGroup_Name = ''all'', HostGroup_Alias = ''All'',
           HostGroup_NotesUrl = [], HostGroup_ActionUrl = [], HostGroup_Members = []\<rparr>)
       = Some [TStr NL, TStr ''}'', TStr NL]
   \<and> text_of (DumpNameList []
        [Host ''gw1'' ''G1'' True True [], Host ''gw2'' ''G2'' True True []])
       = Some ''gw1,gw2''
   \<and> objects_value ''members''
        (dump_servicegroup [] \<lparr>ServiceGroup_Name = ''web'', ServiceGroup_Alias = ''Web'',
           ServiceGroup_NotesUrl = [], ServiceGroup_ActionUrl = [], ServiceGroup_Members = []\<rparr>)
       = Some [TStr NL, TStr ''}'', TStr NL]
   \<and> text_of (DumpStringList [] [''web'', ''http'', ''web'', ''ssh''])
       = Some ''web,http,web,ssh''"
  using list_fields [of "Host ''web'' ''Web'' True True
         [Host ''gw1'' ''G1'' True True [], Host ''gw2'' ''G2'' True True []]"
      "\<lparr>HostGroup_Name = ''all'', HostGroup_Alias = ''All'',
           HostGroup_NotesUrl = [], HostGroup_ActionUrl = [], HostGroup_Members = []\<rparr>"
      "[Host ''gw1'' ''G1'' True True [], Host ''gw2'' ''G2'' True True []]"
      "\<lparr>ServiceGroup_Name = ''web'', ServiceGroup_Alias = ''Web'',
           ServiceGroup_NotesUrl = [], ServiceGroup_ActionUrl = [], ServiceGroup_Members = []\<rparr>"
      "[''web'', ''http'', ''web'', ''ssh'']"]
    list_fields [of "Host ''gw1'' ''G1'' True True []"]
  by (simp add: DumpNameList_def DumpStringList_def)

text \<open>
  C3 as stated fails at a host without parents: its block has no \<^verbatim>\<open>parents\<close> field,
  where the claim has an empty one.
\<close>

theorem host_without_parents_has_no_field:
  "Host_Parents (Host ''gw1'' ''G1'' True True []) = []
   \<and> objects_value ''parents'' (DumpHostObject [] (Host ''gw1'' ''G1'' True True [])) = None"
  by (simp add: DumpHostObject_def)

subsection \<open>The service status block\<close>

text \<open>
  C4. The value written for \<^verbatim>\<open>current_state\<close> in a \<^verbatim>\<open>servicestatus\<close> block is the
  state of the service when that is at most \<^verbatim>\<open>StateUnknown\<close>, and \<^verbatim>\<open>StateUnknown\<close>
  when the state is above it.
\<close>

theorem service_state_clamped:
  "status_value ''current_state='' (DumpServiceStatus c [] service)
     = Some (TInt (if StateUnknown c < Service_State service then StateUnknown c
                   else Service_State service))"
  unfolding DumpServiceStatus_def Let_def
  by simp

text \<open>
  C5. The value written for \<^verbatim>\<open>check_execution_time\<close> is the end of the execution minus
  its start, and the value written for \<^verbatim>\<open>check_latency\<close> is the end of the scheduling
  minus its start, minus the execution time, both read from the last check result; both
  values are 0 for a service without a check result.
\<close>

theorem service_check_times:
  "status_value ''check_execution_time='' (DumpServiceStatus c [] service)
     = Some (TDouble (case Service_LastCheckResult service of
                        None \<Rightarrow> 0
                      | Some cr \<Rightarrow> cr_execution_end cr - cr_execution_start cr))
   \<and> status_value ''check_latency='' (DumpServiceStatus c [] service)
     = Some (TDouble (case Service_LastCheckResult service of
                        None \<Rightarrow> 0
                      | Some cr \<Rightarrow> (cr_schedule_end cr - cr_schedule_start cr)
                                   - (cr_execution_end cr - cr_execution_start cr)))"
  unfolding DumpServiceStatus_def Let_def
  by (simp split: option.splits)

subsection \<open>The order of the blocks\<close>

lemma DumpHostStatus_append: "DumpHostStatus fp h = fp @ DumpHostStatus [] h"
  by (simp add: DumpHostStatus_def)

lemma DumpHostObject_append: "DumpHostObject fp h = fp @ DumpHostObject [] h"
  unfolding DumpHostObject_def DumpNameList_def Let_def
  by (simp add: dump_list_from_Cons dump_list_from_append_Cons)

lemma DumpServiceStatus_append: "DumpServiceStatus c fp s = fp @ DumpServiceStatus c [] s"
  by (simp add: DumpServiceStatus_def Let_def)

lemma DumpServiceObject_append: "DumpServiceObject fp s = fp @ DumpServiceObject [] s"
  by (simp add: DumpServiceObject_def)

lemma dump_hostgroup_append: "dump_hostgroup fp hg = fp @ dump_hostgroup [] hg"
  unfolding dump_hostgroup_def DumpNameList_def Let_def
  by (simp add: dump_list_from_Cons dump_list_from_append_Cons)

lemma dump_servicegroup_append: "dump_servicegroup fp sg = fp @ dump_servicegroup [] sg"
  unfolding dump_servicegroup_def DumpStringList_def Let_def
  by (simp add: dump_list_from_Cons dump_list_from_append_Cons)

lemma fold_both:
  assumes "\<And>fp x. f fp x = fp @ f [] x" and "\<And>fp x. g fp x = fp @ g [] x"
  shows "fold (\<lambda>x fs. \<lparr>statusfp = f (statusfp fs) x, objectfp = g (objectfp fs) x\<rparr>) xs fs
         = \<lparr>statusfp = statusfp fs @ concat (map (f []) xs),
            objectfp = objectfp fs @ concat (map (g []) xs)\<rparr>"
proof (induction xs arbitrary: fs)
  case Nil
  then show ?case by simp
next
  case (Cons x xs)
  show ?case
    using assms(1) [of "statusfp fs" x] assms(2) [of "objectfp fs" x]
    by (simp add: Cons.IH)
qed

lemma fold_objects:
  assumes "\<And>fp x. g fp x = fp @ g [] x"
  shows "fold (\<lambda>x fs. fs\<lparr>objectfp := g (objectfp fs) x\<rparr>) xs fs
         = \<lparr>statusfp = statusfp fs, objectfp = objectfp fs @ concat (map (g []) xs)\<rparr>"
proof (induction xs arbitrary: fs)
  case Nil
  then show ?case by simp
next
  case (Cons x xs)
  show ?case
    using assms [of "objectfp fs" x] by (simp add: Cons.IH)
qed

lemma StatusTimerHandler_streams:
  "StatusTimerHandler c env reg =
     \<lparr>statusfp = status_header env
        @ concat (map (DumpHostStatus []) (Hosts reg))
        @ concat (map (DumpServiceStatus c []) (Services reg)),
      objectfp = objects_header
        @ concat (map (DumpHostObject []) (Hosts reg))
        @ concat (map (dump_hostgroup []) (HostGroups reg))
        @ concat (map (DumpServiceObject []) (Services reg))
        @ concat (map (dump_servicegroup []) (ServiceGroups reg))\<rparr>"
  unfolding StatusTimerHandler_def Let_def
  by (simp add: fold_both [of DumpHostStatus DumpHostObject, OF DumpHostStatus_append DumpHostObject_append]
      fold_both [of "DumpServiceStatus c" DumpServiceObject, OF DumpServiceStatus_append DumpServiceObject_append]
      fold_objects [of dump_hostgroup, OF dump_hostgroup_append]
      fold_objects [of dump_servicegroup, OF dump_servicegroup_append])

text \<open>
  C6. In one run the objects stream holds, after its header, the blocks of the hosts,
  then those of the host groups, then those of the services, then those of the service
  groups, each kind in the order of the registry; the status stream holds, after its
  header, the blocks of the hosts and then those of the services. The \<^verbatim>\<open>members\<close> field
  of a service group block is the list of host name and service alias of each member in
  turn, joined by commas.
\<close>

theorem StatusTimerHandler_order:
  "objectfp (StatusTimerHandler c env reg)
     = objects_header
       @ concat (map (DumpHostObject []) (Hosts reg))
       @ concat (map (dump_hostgroup []) (HostGroups reg))
       @ concat (map (DumpServiceObject []) (Services reg))
       @ concat (map (dump_servicegroup []) (ServiceGroups reg))
   \<and> statusfp (StatusTimerHandler c env reg)
     = status_header env
       @ concat (map (DumpHostStatus []) (Hosts reg))
       @ concat (map (DumpServiceStatus c []) (Services reg))
   \<and> objects_value ''members'' (dump_servicegroup [] sg)
     = Some (DumpStringList []
               (concat (map (\<lambda>service. [Host_Name (Service_Host service), Service_Alias service])
                          (ServiceGroup_Members sg)))
             @ [TStr NL, TStr ''}'', TStr NL])
   \<and> text_of (DumpStringList []
               (concat (map (\<lambda>service. [Host_Name (Service_Host service), Service_Alias service])
                          (ServiceGroup_Members sg))))
     = Some (comma_join
               (concat (map (\<lambda>service. [Host_Name (Service_Host service), Service_Alias service])
                          (ServiceGroup_Members sg))))"
  using servicegroup_members [of sg]
  by (simp add: StatusTimerHandler_streams DumpStringList_def text_of_dump_list)

subsection \<open>The host status block\<close>

text \<open>
  C7. For a registry with the one host \<open>h\<close>, the status stream is its header, the
  \<^verbatim>\<open>hoststatus\<close> block of \<open>h\<close> and the blocks of the services. The block has the line
  \<^verbatim>\<open>has_been_checked=1\<close>, and its \<^verbatim>\<open>current_state\<close> is 2 when the host is not
  reachable, 1 when it is reachable and not up, and 0 otherwise: nothing else of the
  host, and no check result, is read for it.
\<close>

theorem single_host_status:
  "(Hosts reg = [h] \<longrightarrow>
      statusfp (StatusTimerHandler c env reg)
        = status_header env @ DumpHostStatus [] h
          @ concat (map (DumpServiceStatus c []) (Services reg)))
   \<and> status_line ''has_been_checked=1'' (DumpHostStatus [] h)
   \<and> status_value ''current_state='' (DumpHostStatus [] h)
       = Some (TInt (if \<not> Host_IsReachable h then 2 else if \<not> Host_IsUp h then 1 else 0))"
  unfolding DumpHostStatus_def Let_def
  by (simp add: StatusTimerHandler_streams DumpHostStatus_def)

text \<open>
  A registry with one host that is reachable and down, and nothing else.
\<close>

theorem single_host_status_witness:
  "statusfp (StatusTimerHandler c0 env0
      \<lparr>Hosts = [Host ''web'' ''Web'' True False []], HostGroups = [], Services = [],
       ServiceGroups = []\<rparr>)
     = status_header env0 @ DumpHostStatus [] (Host ''web'' ''Web'' True False [])
   \<and> status_line ''has_been_checked=1'' (DumpHostStatus [] (Host ''web'' ''Web'' True False []))
   \<and> status_value ''current_state='' (DumpHostStatus [] (Host ''web'' ''Web'' True False []))
       = Some (TInt 1)"
  using single_host_status [of
      "\<lparr>Hosts = [Host ''web'' ''Web'' True False []], HostGroups = [], Services = [],
        ServiceGroups = []\<rparr>"
      "Host ''web'' ''Web'' True False []" c0 env0]
  by simp

subsection \<open>Starting the command pipe\<close>

lemma setup_reuse:
  "lstat_ok os \<Longrightarrow> is_fifo os \<Longrightarrow> access_ok os \<Longrightarrow>
   CommandPipeThread_setup os th = Inr (th\<lparr>calls := calls th @ [sys_lstat, sys_access]\<rparr>)"
  by (simp add: CommandPipeThread_setup_def call_def)

lemma setup_unlink_fails:
  "lstat_ok os \<Longrightarrow> \<not> (is_fifo os \<and> access_ok os) \<Longrightarrow> \<not> unlink_ok os \<Longrightarrow>
   CommandPipeThread_setup os th
     = Inl (PosixException ''unlink() failed'',
            th\<lparr>calls := calls th @ (if is_fifo os then [sys_lstat, sys_access, sys_unlink]
                                      else [sys_lstat, sys_unlink])\<rparr>)"
  by (auto simp add: CommandPipeThread_setup_def call_def)

lemma setup_remake:
  "lstat_ok os \<Longrightarrow> \<not> (is_fifo os \<and> access_ok os) \<Longrightarrow> unlink_ok os \<Longrightarrow> mkfifo_ok os \<Longrightarrow>
   CommandPipeThread_setup os th
     = Inr (th\<lparr>calls := calls th @ (if is_fifo os
                                      then [sys_lstat, sys_access, sys_unlink, sys_mkfifo]
                                      else [sys_lstat, sys_unlink, sys_mkfifo])\<rparr>)"
  by (auto simp add: CommandPipeThread_setup_def call_def)

lemma setup_unlink_called:
  "(sys_unlink \<in> set (calls (case CommandPipeThread_setup os thread0 of
                                 Inl (e, th) \<Rightarrow> th | Inr th \<Rightarrow> th)))
   = (lstat_ok os \<and> \<not> (is_fifo os \<and> access_ok os))"
  by (auto simp add: CommandPipeThread_setup_def call_def thread0_def Let_def)

text \<open>
  C8, as amended. At startup \<^verbatim>\<open>unlink\<close> is called on the command path exactly when
  there is a node that is not a pipe with read permission: a node that is not a pipe,
  or a pipe that cannot be read. A pipe with read permission is reused: neither
  \<^verbatim>\<open>unlink\<close> nor \<^verbatim>\<open>mkfifo\<close> is called. When \<^verbatim>\<open>unlink\<close> fails the thread ends with
  the exception \<^verbatim>\<open>unlink() failed\<close>; when it succeeds, \<^verbatim>\<open>mkfifo\<close> makes the pipe anew.
\<close>

theorem command_path_setup:
  "(sys_unlink \<in> set (calls (case CommandPipeThread_setup os thread0 of
                                 Inl (e, th) \<Rightarrow> th | Inr th \<Rightarrow> th)))
     = (lstat_ok os \<and> \<not> (is_fifo os \<and> access_ok os))
   \<and> (lstat_ok os \<and> is_fifo os \<and> access_ok os \<longrightarrow>
        CommandPipeThread_setup os th = Inr (th\<lparr>calls := calls th @ [sys_lstat, sys_access]\<rparr>))
   \<and> (lstat_ok os \<and> \<not> (is_fifo os \<and> access_ok os) \<and> \<not> unlink_ok os \<longrightarrow>
        CommandPipeThread_setup os th
          = Inl (PosixException ''unlink() failed'',
                 th\<lparr>calls := calls th @ (if is_fifo os then [sys_lstat, sys_access, sys_unlink]
                                           else [sys_lstat, sys_unlink])\<rparr>)
        \<and> CommandPipeThread os sessions th
          = Thrown (PosixException ''unlink() failed'')
              (th\<lparr>calls := calls th @ (if is_fifo os then [sys_lstat, sys_access, sys_unlink]
                                        else [sys_lstat, sys_unlink])\<rparr>))
   \<and> (lstat_ok os \<and> \<not> (is_fifo os \<and> access_ok os) \<and> unlink_ok os \<and> mkfifo_ok os \<longrightarrow>
        CommandPipeThread_setup os th
          = Inr (th\<lparr>calls := calls th @ (if is_fifo os
                                           then [sys_lstat, sys_access, sys_unlink, sys_mkfifo]
                                           else [sys_lstat, sys_unlink, sys_mkfifo])\<rparr>))"
  using setup_unlink_called [of os] setup_reuse [of os th] setup_unlink_fails [of os th]
    setup_remake [of os th]
  by (simp add: CommandPipeThread_def)

text \<open>
  A readable pipe, a regular file that cannot be removed, and a regular file that can.
\<close>

theorem command_path_setup_witness:
  "CommandPipeThread_setup
      \<lparr>lstat_ok = True, is_fifo = True, access_ok = True, unlink_ok = True, mkfifo_ok = True\<rparr>
      thread0
     = Inr \<lparr>calls = [sys_lstat, sys_access], posted = []\<rparr>
   \<and> CommandPipeThread_setup
      \<lparr>lstat_ok = True, is_fifo = False, access_ok = True, unlink_ok = False, mkfifo_ok = True\<rparr>
      thread0
     = Inl (PosixException ''unlink() failed'', \<lparr>calls = [sys_lstat, sys_unlink], posted = []\<rparr>)
   \<and> CommandPipeThread_setup
      \<lparr>lstat_ok = True, is_fifo = False, access_ok = True, unlink_ok = True, mkfifo_ok = True\<rparr>
      thread0
     = Inr \<lparr>calls = [sys_lstat, sys_unlink, sys_mkfifo], posted = []\<rparr>"
  using command_path_setup [of
      "\<lparr>lstat_ok = True, is_fifo = True, access_ok = True, unlink_ok = True, mkfifo_ok = True\<rparr>"
      thread0]
    command_path_setup [of
      "\<lparr>lstat_ok = True, is_fifo = False, access_ok = True, unlink_ok = False, mkfifo_ok = True\<rparr>"
      thread0]
    command_path_setup [of
      "\<lparr>lstat_ok = True, is_fifo = False, access_ok = True, unlink_ok = True, mkfifo_ok = True\<rparr>"
      thread0]
  by (simp add: thread0_def)

text \<open>
  C8 as stated fails at a pipe without read permission: the node is a pipe, and it is
  unlinked and made anew.
\<close>

theorem unreadable_pipe_is_removed:
  "is_fifo \<lparr>lstat_ok = True, is_fifo = True, access_ok = False, unlink_ok = True,
            mkfifo_ok = True\<rparr>
   \<and> CommandPipeThread_setup
      \<lparr>lstat_ok = True, is_fifo = True, access_ok = False, unlink_ok = True, mkfifo_ok = True\<rparr>
      thread0
     = Inr \<lparr>calls = [sys_lstat, sys_access, sys_unlink, sys_mkfifo], posted = []\<rparr>"
  by (simp add: CommandPipeThread_setup_def call_def thread0_def)

subsection \<open>The read loop\<close>

lemma fold_post_line:
  "fold post_line lines th
     = th\<lparr>posted := posted th @ map remove_trailing_newline lines\<rparr>"
  by (induction lines arbitrary: th) (simp_all add: post_line_def)

lemma loop_reads:
  "CommandPipeThread_loop (map reads ls @ rest) th
     = CommandPipeThread_loop rest
         (th\<lparr>calls := calls th @ concat (map (\<lambda>lines. [sys_open, sys_fdopen, sys_fclose]) ls),
             posted := posted th @ map remove_trailing_newline (concat ls)\<rparr>)"
proof (induction ls arbitrary: th)
  case Nil
  then show ?case by simp
next
  case (Cons lines ls)
  show ?case
    by (simp add: Cons.IH fold_post_line call_def)
qed

lemma loop_thrown:
  "CommandPipeThread_loop sessions th = Thrown e th' \<Longrightarrow>
   (e = PosixException ''open() failed'' \<and> open_fails \<in> set sessions)
   \<or> (e = PosixException ''fdopen() failed'' \<and> fdopen_fails \<in> set sessions)"
proof (induction sessions th rule: CommandPipeThread_loop.induct)
  case (1 th)
  then show ?case by simp
next
  case (2 rest th)
  then show ?case by simp
next
  case (3 rest th)
  then show ?case by simp
next
  case (4 lines rest th)
  then show ?case by auto
qed

text \<open>
  C9. Whatever lines the writers send, and however many writers open the pipe, write
  and close it, the loop does not end: after each end of stream it closes its handle
  and opens the pipe again, every line read is handed on without its trailing new-line,
  and after the last session the thread is inside \<^verbatim>\<open>open\<close> once more. The loop ends only
  with an exception, when \<^verbatim>\<open>open\<close> or \<^verbatim>\<open>fdopen\<close> on the pipe fails.
\<close>

theorem read_loop_keeps_serving:
  "CommandPipeThread_loop (map reads ls) th
     = Blocked
         (th\<lparr>calls := calls th
                 @ concat (map (\<lambda>lines. [sys_open, sys_fdopen, sys_fclose]) ls) @ [sys_open],
             posted := posted th @ map remove_trailing_newline (concat ls)\<rparr>)
   \<and> (CommandPipeThread_loop sessions th = Thrown e th' \<longrightarrow>
        (e = PosixException ''open() failed'' \<and> open_fails \<in> set sessions)
        \<or> (e = PosixException ''fdopen() failed'' \<and> fdopen_fails \<in> set sessions))"
  using loop_reads [of ls "[]" th] loop_thrown [of sessions th e th']
  by (simp add: call_def)

text \<open>
  Two writers, the first with a malformed line and an empty one, and a third
  \<^verbatim>\<open>open\<close> that fails.
\<close>

theorem read_loop_keeps_serving_witness:
  "CommandPipeThread_loop
      [reads [''garbage'' @ NL, NL], reads [''[1700000000] CMD;a'' @ [CHR 0x0D] @ NL]] thread0
     = Blocked
         \<lparr>calls = [sys_open, sys_fdopen, sys_fclose, sys_open, sys_fdopen, sys_fclose, sys_open],
          posted = [''garbage'', [], ''[1700000000] CMD;a'']\<rparr>
   \<and> CommandPipeThread_loop [reads [''garbage'' @ NL], open_fails] thread0
       = Thrown (PosixException ''open() failed'')
           \<lparr>calls = [sys_open, sys_fdopen, sys_fclose, sys_open], posted = [''garbage'']\<rparr>
   \<and> open_fails \<in> set [reads [''garbage'' @ NL], open_fails]"
  using read_loop_keeps_serving [of
      "[[''garbage'' @ NL, NL], [''[1700000000] CMD;a'' @ [CHR 0x0D] @ NL]]" thread0
      "[reads [''garbage'' @ NL], open_fails]"
      "PosixException ''open() failed''"
      "\<lparr>calls = [sys_open, sys_fdopen, sys_fclose, sys_open], posted = [''garbage'']\<rparr>"]
  by (simp add: thread0_def call_def post_line_def remove_trailing_newline.simps)

end
